theory Spec2Isabelle
  imports Main
begin

section \<open>Data model of \<open>claimWinningsAction.ts\<close>\<close>

text \<open>
  The three interfaces of the source become records with the same field names; the
  \<open>id\<close> and \<open>chainId\<close> fields carry a prefix where the name is taken already
  (\<open>cond_id\<close>, \<open>pos_id\<close>, \<open>pos_chainId\<close>). A field typed \<open>T | null\<close> is a
  \<open>T option\<close>; an array is a list, so the guards of the source against a missing
  \<open>predictions\<close> array have no case of their own. JavaScript strings are modelled as
  \<open>string\<close> (lists of 8-bit characters), which is exact for the ASCII text the
  settlement index delivers (hexadecimal addresses, decimal amounts); numbers that
  are identifiers or time stamps are integers.
\<close>

record ConditionInfo =
  cond_id :: string
  question :: "string option"
  shortName :: "string option"
  endTime :: "int option"
  resolver :: "string option"
  settled :: bool
  resolvedToYes :: bool

record PredictionInfo =
  conditionId :: string
  outcomeYes :: bool
  chainId :: "int option"
  condition :: "ConditionInfo option"

record ClaimablePosition =
  pos_id :: int
  pos_chainId :: int
  marketAddress :: string
  predictor :: string
  counterparty :: string
  predictorNftTokenId :: string
  counterpartyNftTokenId :: string
  totalCollateral :: string
  predictorCollateral :: "string option"
  counterpartyCollateral :: "string option"
  refCode :: "string option"
  status :: string
  predictorWon :: "bool option"
  settledAt :: "int option"
  predictions :: "PredictionInfo list"

text \<open>The object returned by \<open>getClaimableInfo\<close>.\<close>

record ClaimableInfo =
  tokenId :: string
  isWinner :: bool
  winnings :: int
  marketName :: string

text \<open>A thrown JavaScript error; only its \<open>message\<close> is ever read by the source.\<close>

datatype js_error = SyntaxError string | TypeError string | Error string

fun message :: "js_error \<Rightarrow> string" where
  "message (SyntaxError m) = m"
| "message (TypeError m) = m"
| "message (Error m) = m"

section \<open>JavaScript primitives used by the evaluator\<close>

text \<open>\<open>String.prototype.toLowerCase\<close> on ASCII text: the letters A to Z are mapped to
  a to z, every other character is kept.\<close>

definition toLowerCase_char :: "char \<Rightarrow> char" where
  "toLowerCase_char c =
     (case map_of (zip ''ABCDEFGHIJKLMNOPQRSTUVWXYZ'' ''abcdefghijklmnopqrstuvwxyz'') c of
        None \<Rightarrow> c
      | Some l \<Rightarrow> l)"

definition toLowerCase :: "string \<Rightarrow> string" where
  "toLowerCase s = map toLowerCase_char s"

text \<open>\<open>a || b\<close> on a nullable string: \<open>null\<close> and the empty string are falsy.\<close>

definition or_else :: "string option \<Rightarrow> string \<Rightarrow> string" where
  "or_else a b = (case a of None \<Rightarrow> b | Some s \<Rightarrow> if s = [] then b else s)"

text \<open>
  \<open>BigInt(string)\<close> follows the StringToBigInt grammar of ECMAScript: white space is
  trimmed on both sides; the empty string is zero; a literal is either decimal digits
  with an optional sign, or an unsigned binary, octal or hexadecimal literal with its
  \<open>0b\<close>, \<open>0o\<close>, \<open>0x\<close> prefix. Anything else throws a SyntaxError, here with the
  message that Node gives it.
\<close>

definition isStrWhiteSpace :: "char \<Rightarrow> bool" where
  "isStrWhiteSpace c \<longleftrightarrow> (of_char c :: nat) \<in> {9, 10, 11, 12, 13, 32}"

definition trimString :: "string \<Rightarrow> string" where
  "trimString s = rev (dropWhile isStrWhiteSpace (rev (dropWhile isStrWhiteSpace s)))"

definition digitValue :: "char \<Rightarrow> nat option" where
  "digitValue c =
     (let n = (of_char c :: nat)
      in if 48 \<le> n \<and> n \<le> 57 then Some (n - 48)
         else if 97 \<le> n \<and> n \<le> 102 then Some (n - 87)
         else if 65 \<le> n \<and> n \<le> 70 then Some (n - 55)
         else None)"

fun parseDigits :: "nat \<Rightarrow> nat \<Rightarrow> string \<Rightarrow> nat option" where
  "parseDigits base acc [] = Some acc"
| "parseDigits base acc (c # cs) =
     (case digitValue c of
        None \<Rightarrow> None
      | Some d \<Rightarrow> if d < base then parseDigits base (acc * base + d) cs else None)"

definition parseDigits1 :: "nat \<Rightarrow> string \<Rightarrow> nat option" where
  "parseDigits1 base s = (if s = [] then None else parseDigits base 0 s)"

definition StringToBigInt :: "string \<Rightarrow> int option" where
  "StringToBigInt s =
     (let t = trimString s
      in if t = [] then Some 0
         else if take 2 t \<in> {''0x'', ''0X''} then map_option int (parseDigits1 16 (drop 2 t))
         else if take 2 t \<in> {''0o'', ''0O''} then map_option int (parseDigits1 8 (drop 2 t))
         else if take 2 t \<in> {''0b'', ''0B''} then map_option int (parseDigits1 2 (drop 2 t))
         else if take 1 t = ''+'' then map_option int (parseDigits1 10 (drop 1 t))
         else if take 1 t = ''-'' then map_option (\<lambda>n. - int n) (parseDigits1 10 (drop 1 t))
         else map_option int (parseDigits1 10 t))"

definition BigInt :: "string \<Rightarrow> js_error + int" where
  "BigInt s =
     (case StringToBigInt s of
        None \<Rightarrow> Inl (SyntaxError (''Cannot convert '' @ s @ '' to a BigInt''))
      | Some n \<Rightarrow> Inr n)"

text \<open>Decimal rendering of a number inside a template literal.\<close>

fun showNat :: "nat \<Rightarrow> string" where
  "showNat n =
     (if n < 10 then [''0123456789'' ! n]
      else showNat (n div 10) @ [''0123456789'' ! (n mod 10)])"

definition showInt :: "int \<Rightarrow> string" where
  "showInt i = (if i < 0 then ''-'' @ showNat (nat (- i)) else showNat (nat i))"

section \<open>The eligibility evaluator\<close>

text \<open>\<open>areAllConditionsSettled\<close>: no legs gives \<open>false\<close>; otherwise \<open>every\<close> leg
  has a condition object whose \<open>settled\<close> flag is \<open>true\<close>.\<close>

definition areAllConditionsSettled :: "ClaimablePosition \<Rightarrow> bool" where
  "areAllConditionsSettled position =
     (if predictions position = [] then False
      else list_all
             (\<lambda>pred. case condition pred of None \<Rightarrow> False | Some c \<Rightarrow> settled c = True)
             (predictions position))"

text \<open>\<open>didPredictorWin\<close>: no legs gives \<open>false\<close>; otherwise every leg must have a
  settled condition whose resolution equals the predicted outcome.\<close>

definition didPredictorWin :: "ClaimablePosition \<Rightarrow> bool" where
  "didPredictorWin position =
     (if predictions position = [] then False
      else list_all
             (\<lambda>pred. case condition pred of
                        None \<Rightarrow> False
                      | Some c \<Rightarrow> if \<not> settled c then False
                                  else outcomeYes pred = resolvedToYes c)
             (predictions position))"

text \<open>
  The display label:
  \<open>predictions?.[0]?.condition?.shortName || predictions?.[0]?.condition?.question?.slice(0, 50)
  || `Position #${position.id}`\<close>.
\<close>

definition firstCondition :: "ClaimablePosition \<Rightarrow> ConditionInfo option" where
  "firstCondition position =
     (case predictions position of [] \<Rightarrow> None | pred # _ \<Rightarrow> condition pred)"

definition marketNameOf :: "ClaimablePosition \<Rightarrow> string" where
  "marketNameOf position =
     or_else (case firstCondition position of None \<Rightarrow> None | Some c \<Rightarrow> shortName c)
       (or_else (case firstCondition position of
                   None \<Rightarrow> None
                 | Some c \<Rightarrow> map_option (take 50) (question c))
          (''Position #'' @ showInt (pos_id position)))"

text \<open>
  \<open>getClaimableInfo\<close>. The three early \<open>return null\<close> statements give
  \<open>Inr None\<close>; a \<open>BigInt\<close> conversion that throws gives \<open>Inl\<close>; the order of the
  checks and of the two conversions is that of the source.
\<close>

definition getClaimableInfo ::
  "ClaimablePosition \<Rightarrow> string \<Rightarrow> js_error + ClaimableInfo option" where
  "getClaimableInfo position walletAddress =
     (let addr = toLowerCase walletAddress;
          isPredictor = (toLowerCase (predictor position) = addr);
          isCounterparty = (toLowerCase (counterparty position) = addr)
      in if \<not> isPredictor \<and> \<not> isCounterparty then Inr None
         else if status position \<noteq> ''active'' then Inr None
         else if \<not> areAllConditionsSettled position then Inr None
         else
           (let predictorWon = didPredictorWin position;
                isWinner' = ((isPredictor \<and> predictorWon) \<or> (isCounterparty \<and> \<not> predictorWon))
            in case BigInt (totalCollateral position) of
                 Inl e \<Rightarrow> Inl e
               | Inr totalCollateral' \<Rightarrow>
                   (case (if isPredictor
                          then BigInt (or_else (predictorCollateral position) ''0'')
                          else BigInt (or_else (counterpartyCollateral position) ''0'')) of
                      Inl e \<Rightarrow> Inl e
                    | Inr userCollateral \<Rightarrow>
                        Inr (Some \<lparr> tokenId = (if isPredictor
                                                then predictorNftTokenId position
                                                else counterpartyNftTokenId position),
                                     isWinner = isWinner',
                                     winnings = (if isWinner' then totalCollateral' - userCollateral
                                                 else 0),
                                     marketName = marketNameOf position \<rparr>))))"

section \<open>External collaborators of the handler\<close>

text \<open>
  The handler talks to the outside world: the configuration getters of
  \<open>../utils/blockchain.js\<close>, \<open>fetch\<close>, the transaction SDK and the \<open>viem\<close> encoders.
  They are parameters of the model. Calls with an effect take the state of the world
  \<open>'w\<close> and return the new one; a call that throws returns \<open>Inl\<close>.

  \<open>Config\<close> holds what the five getters at the head of the handler return, with the
  imported constant \<open>CHAIN_ID_ETHEREAL\<close>; \<open>getConfig\<close> is \<open>Inl\<close> when one of the
  getters throws. \<open>fetch\<close> receives the endpoint and the variables of the request (the
  query document is a constant). What the getters, \<open>fetch\<close> and \<open>loadSdk\<close> throw
  reaches the outer \<open>catch\<close> only and is an error object with a message.
  \<open>loadSdk\<close> returns the \<open>submitTransaction\<close> function. \<open>encodeFunctionData\<close>
  receives the two arguments of \<open>burn\<close>.
\<close>

record Config =
  walletAddress :: string
  privateKey :: string
  rpcUrl :: string
  PREDICTION_MARKET :: string
  sapienceGraphql :: string
  CHAIN_ID_ETHEREAL :: int

text \<open>The \<open>variables\<close> object sent with \<open>CLAIMABLE_POSITIONS_QUERY\<close>.\<close>

record QueryVariables =
  var_address :: string
  var_chainId :: int
  var_take :: nat
  var_skip :: nat

record PositionsResponse =
  positions :: "ClaimablePosition list"

text \<open>What \<open>graphqlRequest\<close> reads of the HTTP response: \<open>ok\<close>, \<open>statusText\<close> and the
  parsed body with its optional \<open>errors\<close> array (each entry with an optional message)
  and its \<open>data\<close>.\<close>

record GraphqlBody =
  errors :: "string option list option"
  data :: PositionsResponse

record HttpResponse =
  ok :: bool
  statusText :: string
  json :: "js_error + GraphqlBody"

text \<open>The argument of \<open>submitTransaction\<close>.\<close>

record SubmitArgs =
  rpc :: string
  sub_chainId :: int
  sub_privateKey :: string
  tx_to :: string
  tx_data :: string
  tx_value :: string

text \<open>
  What is thrown inside the \<open>try\<close> of the claim loop arrives in a
  \<open>catch (error: any)\<close>: it is any JavaScript value. The source reads its \<open>message\<close>
  only, so a value is \<open>null\<close>, \<open>undefined\<close>, or anything else with what its
  \<open>message\<close> property holds (\<open>None\<close> when it has none, as for a thrown string; an
  \<open>Error\<close> object always has one).
\<close>

datatype thrown = ThrownNull | ThrownUndefined | ThrownValue "string option"

text \<open>What \<open>submitTransaction\<close> resolves with is as untyped: the source reads its
  \<open>hash\<close>, which an object may lack.\<close>

datatype tx_result = TxNull | TxUndefined | TxObject "string option"

type_synonym 'w submitTransaction = "'w \<Rightarrow> SubmitArgs \<Rightarrow> (thrown + tx_result) \<times> 'w"

record 'w Collaborators =
  getConfig :: "js_error + Config"
  fetch :: "'w \<Rightarrow> string \<Rightarrow> QueryVariables \<Rightarrow> (js_error + HttpResponse) \<times> 'w"
  loadSdk :: "'w \<Rightarrow> (js_error + 'w submitTransaction) \<times> 'w"
  encodeFunctionData :: "int \<Rightarrow> string \<Rightarrow> thrown + string"
  formatEther :: "int \<Rightarrow> string"

section \<open>The settlement reader\<close>

text \<open>\<open>graphqlRequest\<close>: a response that is not OK, and a body with an \<open>errors\<close> array
  (even an empty one), throw.\<close>

definition graphqlRequest ::
  "'w Collaborators \<Rightarrow> 'w \<Rightarrow> string \<Rightarrow> QueryVariables \<Rightarrow> (js_error + PositionsResponse) \<times> 'w" where
  "graphqlRequest env w endpoint variables =
     (case fetch env w endpoint variables of
        (Inl e, w') \<Rightarrow> (Inl e, w')
      | (Inr response, w') \<Rightarrow>
          if \<not> ok response
          then (Inl (Error (''GraphQL request failed: '' @ statusText response)), w')
          else (case json response of
                  Inl e \<Rightarrow> (Inl e, w')
                | Inr body \<Rightarrow>
                    (case errors body of
                       Some errs \<Rightarrow>
                         (Inl (Error (''GraphQL error: '' @
                                 or_else (case errs of [] \<Rightarrow> None | e # _ \<Rightarrow> e)
                                   ''Unknown error'')), w')
                     | None \<Rightarrow> (Inr (data body), w'))))"

definition PAGE_SIZE :: nat where
  "PAGE_SIZE = 100"

text \<open>
  The \<open>while (true)\<close> loop of the handler. It has no bound of its own: when the index
  keeps answering with full pages it never returns, which is the value \<open>None\<close>.
  A request that throws leaves the loop with the error. (\<open>response.positions || []\<close>
  is \<open>response.positions\<close>: an array, even an empty one, is truthy.)
\<close>

partial_function (option) fetchLoop ::
  "'w Collaborators \<Rightarrow> Config \<Rightarrow> 'w \<Rightarrow> ClaimablePosition list \<Rightarrow> nat
     \<Rightarrow> ((js_error + ClaimablePosition list) \<times> 'w) option" where
  [code]: "fetchLoop env cfg w acc skip =
     (case graphqlRequest env w (sapienceGraphql cfg)
             \<lparr> var_address = walletAddress cfg, var_chainId = CHAIN_ID_ETHEREAL cfg,
               var_take = PAGE_SIZE, var_skip = skip \<rparr> of
        (Inl e, w') \<Rightarrow> Some (Inl e, w')
      | (Inr response, w') \<Rightarrow>
          (let page = positions response
           in if length page < PAGE_SIZE then Some (Inr (acc @ page), w')
              else fetchLoop env cfg w' (acc @ page) (skip + PAGE_SIZE)))"

section \<open>The claim loop and the report\<close>

text \<open>An entry of \<open>claimablePositions\<close>: the position with the fields of its
  \<open>ClaimableInfo\<close>.\<close>

type_synonym ClaimableEntry = "ClaimablePosition \<times> ClaimableInfo"

text \<open>The \<open>for\<close> loop that fills \<open>claimablePositions\<close>; a \<open>getClaimableInfo\<close> that
  throws leaves it.\<close>

fun collectClaimable ::
  "ClaimablePosition list \<Rightarrow> string \<Rightarrow> ClaimableEntry list \<Rightarrow> js_error + ClaimableEntry list" where
  "collectClaimable [] walletAddr claimablePositions = Inr claimablePositions"
| "collectClaimable (position # rest) walletAddr claimablePositions =
     (case getClaimableInfo position walletAddr of
        Inl e \<Rightarrow> Inl e
      | Inr None \<Rightarrow> collectClaimable rest walletAddr claimablePositions
      | Inr (Some info) \<Rightarrow>
          collectClaimable rest walletAddr (claimablePositions @ [(position, info)]))"

text \<open>An element of \<open>results\<close>; \<open>txHash\<close> and \<open>error\<close> are optional keys.\<close>

record ClaimResult =
  res_tokenId :: string
  res_marketName :: string
  res_winnings :: string
  txHash :: "string option"
  error :: "string option"

definition zeroRefCode :: string where
  "zeroRefCode = ''0x'' @ replicate 64 (CHR ''0'')"

text \<open>Reading a property of \<open>null\<close> or \<open>undefined\<close> throws a TypeError, here with
  the message that Node gives it.\<close>

definition nullishTypeError :: "string \<Rightarrow> string \<Rightarrow> js_error" where
  "nullishTypeError what property =
     TypeError (''Cannot read properties of '' @ what @ '' (reading '' @ [CHR 0x27] @
                property @ [CHR 0x27] @ '')'')"

text \<open>The object passed to \<open>submitTransaction\<close>.\<close>

definition burnTransaction :: "Config \<Rightarrow> string \<Rightarrow> SubmitArgs" where
  "burnTransaction cfg callData =
     \<lparr> rpc = rpcUrl cfg, sub_chainId = CHAIN_ID_ETHEREAL cfg, sub_privateKey = privateKey cfg,
       tx_to = PREDICTION_MARKET cfg, tx_data = callData, tx_value = ''0'' \<rparr>"

text \<open>
  The body of the \<open>try\<close> up to the read of \<open>tx.hash\<close>: the token id conversion, the
  encoding of the call data, the submission. It ends with the value of \<open>tx.hash\<close>
  (\<open>None\<close> for \<open>undefined\<close>) or with what was thrown on the way: the SyntaxError of
  \<open>BigInt\<close>, whatever the encoder or the submission throws, or the TypeError of
  reading \<open>hash\<close> from a transaction that is \<open>null\<close> or \<open>undefined\<close>.
\<close>

definition attemptClaim ::
  "'w Collaborators \<Rightarrow> Config \<Rightarrow> 'w submitTransaction \<Rightarrow> ClaimableEntry \<Rightarrow> 'w
     \<Rightarrow> (thrown + string option) \<times> 'w" where
  "attemptClaim env cfg submit entry w =
     (case BigInt (tokenId (snd entry)) of
        Inl e \<Rightarrow> (Inl (ThrownValue (Some (message e))), w)
      | Inr tokenIdArg \<Rightarrow>
          (case encodeFunctionData env tokenIdArg (or_else (refCode (fst entry)) zeroRefCode) of
             Inl t \<Rightarrow> (Inl t, w)
           | Inr callData \<Rightarrow>
               (case submit w (burnTransaction cfg callData) of
                  (Inl t, w') \<Rightarrow> (Inl t, w')
                | (Inr TxNull, w') \<Rightarrow>
                    (Inl (ThrownValue (Some (message (nullishTypeError ''null'' ''hash'')))), w')
                | (Inr TxUndefined, w') \<Rightarrow>
                    (Inl (ThrownValue (Some (message (nullishTypeError ''undefined'' ''hash'')))),
                     w')
                | (Inr (TxObject hash), w') \<Rightarrow> (Inr hash, w'))))"

text \<open>
  The \<open>catch\<close>: it builds a result with \<open>error: error.message\<close>. When the thrown
  value is \<open>null\<close> or \<open>undefined\<close> that read throws a TypeError, which leaves the
  \<open>catch\<close> and the loop.
\<close>

definition catchClaim :: "'w Collaborators \<Rightarrow> ClaimableEntry \<Rightarrow> thrown \<Rightarrow> js_error + ClaimResult" where
  "catchClaim env entry t =
     (case t of
        ThrownNull \<Rightarrow> Inl (nullishTypeError ''null'' ''message'')
      | ThrownUndefined \<Rightarrow> Inl (nullishTypeError ''undefined'' ''message'')
      | ThrownValue m \<Rightarrow>
          Inr \<lparr> res_tokenId = tokenId (snd entry), res_marketName = marketName (snd entry),
                res_winnings = formatEther env (winnings (snd entry)),
                txHash = None, error = m \<rparr>)"

text \<open>One iteration of the claim loop: the \<open>try\<close>, which pushes a result with
  \<open>txHash: tx.hash\<close> when nothing was thrown, and the \<open>catch\<close>. \<open>Inl\<close> is an error
  that leaves the iteration.\<close>

definition claimOne ::
  "'w Collaborators \<Rightarrow> Config \<Rightarrow> 'w submitTransaction \<Rightarrow> ClaimableEntry \<Rightarrow> 'w
     \<Rightarrow> (js_error + ClaimResult) \<times> 'w" where
  "claimOne env cfg submit entry w =
     (case attemptClaim env cfg submit entry w of
        (Inr hash, w') \<Rightarrow>
          (Inr \<lparr> res_tokenId = tokenId (snd entry), res_marketName = marketName (snd entry),
                 res_winnings = formatEther env (winnings (snd entry)),
                 txHash = hash, error = None \<rparr>, w')
      | (Inl t, w') \<Rightarrow> (catchClaim env entry t, w'))"

text \<open>The loop over the winning positions. An error that leaves an iteration leaves
  the loop: the later positions are not attempted.\<close>

fun claimLoop ::
  "'w Collaborators \<Rightarrow> Config \<Rightarrow> 'w submitTransaction \<Rightarrow> ClaimableEntry list
     \<Rightarrow> ClaimResult list \<Rightarrow> 'w \<Rightarrow> (js_error + ClaimResult list) \<times> 'w" where
  "claimLoop env cfg submit [] results w = (Inr results, w)"
| "claimLoop env cfg submit (entry # rest) results w =
     (case claimOne env cfg submit entry w of
        (Inl e, w') \<Rightarrow> (Inl e, w')
      | (Inr r, w') \<Rightarrow> claimLoop env cfg submit rest (results @ [r]) w')"

text \<open>Truthiness of an optional string key, as in \<open>results.filter((r) => r.txHash)\<close>.\<close>

definition truthy :: "string option \<Rightarrow> bool" where
  "truthy v = (case v of None \<Rightarrow> False | Some s \<Rightarrow> s \<noteq> [])"

text \<open>The \<open>content\<close> object of the final callback.\<close>

record ClaimSummary =
  success :: bool
  claimableCount :: nat
  winningCount :: nat
  losingCount :: nat
  successfulClaims :: nat
  failedClaims :: nat
  totalWinnings :: string
  results :: "ClaimResult list"

definition buildContent ::
  "'w Collaborators \<Rightarrow> ClaimableEntry list \<Rightarrow> ClaimableEntry list \<Rightarrow> ClaimableEntry list
     \<Rightarrow> int \<Rightarrow> ClaimResult list \<Rightarrow> ClaimSummary" where
  "buildContent env claimablePositions winningPositions losingPositions totalWinnings' rs =
     (let successful = filter (\<lambda>r. truthy (txHash r)) rs;
          failed = filter (\<lambda>r. truthy (error r)) rs
      in \<lparr> success = (length successful > 0),
           claimableCount = length claimablePositions,
           winningCount = length winningPositions,
           losingCount = length losingPositions,
           successfulClaims = length successful,
           failedClaims = length failed,
           totalWinnings = formatEther env totalWinnings',
           results = rs \<rparr>)"

text \<open>
  What the handler passes to \<open>callback\<close>, one constructor for each of its five exits
  (the \<open>text\<close> of the message is not modelled):
  \<^item> \<open>NoActivePositions\<close>: \<open>success: true, claimableCount: 0, totalWinnings: "0"\<close>;
  \<^item> \<open>NoneClaimable n\<close>: \<open>success: true, activePositions: n, claimableCount: 0,
    totalWinnings: "0"\<close>;
  \<^item> \<open>NoWinners c l\<close>: \<open>success: true, claimableCount: c, winningCount: 0, losingCount: l,
    totalWinnings: "0"\<close>;
  \<^item> \<open>Claimed summary\<close>: the report after the claim loop;
  \<^item> \<open>ActionFailed m\<close>: the outer \<open>catch\<close>, \<open>success: false, error: m\<close>.
\<close>

datatype Content =
    NoActivePositions
  | NoneClaimable nat
  | NoWinners nat nat
  | Claimed ClaimSummary
  | ActionFailed string

definition sumWinnings :: "ClaimableEntry list \<Rightarrow> int" where
  "sumWinnings winningPositions = foldl (\<lambda>sum p. sum + winnings (snd p)) 0 winningPositions"

text \<open>The part of the handler after the positions have been read.\<close>

definition processPositions ::
  "'w Collaborators \<Rightarrow> Config \<Rightarrow> ClaimablePosition list \<Rightarrow> 'w \<Rightarrow> Content \<times> 'w" where
  "processPositions env cfg allPositions w =
     (if length allPositions = 0 then (NoActivePositions, w)
      else case collectClaimable allPositions (walletAddress cfg) [] of
             Inl e \<Rightarrow> (ActionFailed (message e), w)
           | Inr claimablePositions \<Rightarrow>
               if length claimablePositions = 0 then (NoneClaimable (length allPositions), w)
               else
                 (let winningPositions = filter (\<lambda>p. isWinner (snd p)) claimablePositions;
                      losingPositions = filter (\<lambda>p. \<not> isWinner (snd p)) claimablePositions
                  in if length winningPositions = 0
                     then (NoWinners (length claimablePositions) (length losingPositions), w)
                     else
                       (let totalWinnings' = sumWinnings winningPositions
                        in case loadSdk env w of
                             (Inl e, w') \<Rightarrow> (ActionFailed (message e), w')
                           | (Inr submit, w') \<Rightarrow>
                               (case claimLoop env cfg submit winningPositions [] w' of
                                  (Inl e, w'') \<Rightarrow> (ActionFailed (message e), w'')
                                | (Inr rs, w'') \<Rightarrow>
                                    (Claimed (buildContent env claimablePositions
                                                winningPositions losingPositions totalWinnings' rs),
                                     w'')))))"

text \<open>The handler: configuration, the paging loop, then the rest. \<open>None\<close> is a
  handler whose paging loop never ends.\<close>

definition handler :: "'w Collaborators \<Rightarrow> 'w \<Rightarrow> (Content \<times> 'w) option" where
  "handler env w =
     (case getConfig env of
        Inl e \<Rightarrow> Some (ActionFailed (message e), w)
      | Inr cfg \<Rightarrow>
          (case fetchLoop env cfg w [] 0 of
             None \<Rightarrow> None
           | Some (Inl e, w') \<Rightarrow> Some (ActionFailed (message e), w')
           | Some (Inr allPositions, w') \<Rightarrow> Some (processPositions env cfg allPositions w')))"

section \<open>Stand-ins for the collaborators, and example data\<close>

text \<open>
  Concrete collaborators for the examples below. The world holds the pages that the
  settlement index will serve next and the outcomes that the chain will give to the
  next submissions, and logs every request and every submission it receives. An index
  asked beyond its last page answers with an empty page.
\<close>

record World =
  pendingPages :: "ClaimablePosition list list"
  requestLog :: "QueryVariables list"
  pendingOutcomes :: "(thrown + tx_result) list"
  submitLog :: "SubmitArgs list"

definition okResponse :: "ClaimablePosition list \<Rightarrow> HttpResponse" where
  "okResponse page =
     \<lparr> ok = True, statusText = ''OK'',
       json = Inr \<lparr> errors = None, data = \<lparr> positions = page \<rparr> \<rparr> \<rparr>"

definition scriptedFetch ::
  "World \<Rightarrow> string \<Rightarrow> QueryVariables \<Rightarrow> (js_error + HttpResponse) \<times> World" where
  "scriptedFetch w endpoint variables =
     (Inr (okResponse (case pendingPages w of [] \<Rightarrow> [] | page # _ \<Rightarrow> page)),
      w \<lparr> pendingPages := drop 1 (pendingPages w),
          requestLog := requestLog w @ [variables] \<rparr>)"

definition scriptedSubmit :: "World submitTransaction" where
  "scriptedSubmit w args =
     ((case pendingOutcomes w of
         [] \<Rightarrow> Inl (ThrownValue (Some ''network unreachable''))
       | outcome # _ \<Rightarrow> outcome),
      w \<lparr> pendingOutcomes := drop 1 (pendingOutcomes w),
          submitLog := submitLog w @ [args] \<rparr>)"

text \<open>\<open>formatEther\<close> of \<open>viem\<close>: the amount in units of \<open>10^18\<close>, the fraction without its
  trailing zeros.\<close>

definition viem_formatEther :: "int \<Rightarrow> string" where
  "viem_formatEther v =
     (let display = showNat (nat \<bar>v\<bar>);
          padded = replicate (18 - length display) (CHR ''0'') @ display;
          integer = take (length padded - 18) padded;
          fraction = rev (dropWhile (\<lambda>c. c = CHR ''0'') (rev (drop (length padded - 18) padded)))
      in (if v < 0 then ''-'' else []) @ (if integer = [] then ''0'' else integer) @
         (if fraction = [] then [] else ''.'' @ fraction))"

text \<open>The encoder of \<open>burn(uint256 tokenId, bytes32 refCode)\<close>: it refuses a token id
  that is not a \<open>uint256\<close>.\<close>

definition exampleEncode :: "int \<Rightarrow> string \<Rightarrow> thrown + string" where
  "exampleEncode tokenIdArg refCodeArg =
     (if 0 \<le> tokenIdArg \<and> tokenIdArg < 2 ^ 256
      then Inr (''burn('' @ showInt tokenIdArg @ '','' @ refCodeArg @ '')'')
      else Inl (ThrownValue (Some ''Number is not in safe 256-bit unsigned integer range'')))"

definition exampleConfig :: Config where
  "exampleConfig =
     \<lparr> walletAddress = ''0xabc1'', privateKey = ''0xkey'', rpcUrl = ''https://rpc.example'',
       PREDICTION_MARKET = ''0xmarket'', sapienceGraphql = ''https://api.example/graphql'',
       CHAIN_ID_ETHEREAL = 5064014 \<rparr>"

definition exampleEnv :: "World Collaborators" where
  "exampleEnv =
     \<lparr> getConfig = Inr exampleConfig, fetch = scriptedFetch,
       loadSdk = (\<lambda>w. (Inr scriptedSubmit, w)),
       encodeFunctionData = exampleEncode, formatEther = viem_formatEther \<rparr>"

definition exampleWorld ::
  "ClaimablePosition list list \<Rightarrow> (thrown + tx_result) list \<Rightarrow> World" where
  "exampleWorld pages outcomes =
     \<lparr> pendingPages = pages, requestLog = [], pendingOutcomes = outcomes, submitLog = [] \<rparr>"

definition pageRequest :: "Config \<Rightarrow> nat \<Rightarrow> QueryVariables" where
  "pageRequest cfg offset =
     \<lparr> var_address = walletAddress cfg, var_chainId = CHAIN_ID_ETHEREAL cfg,
       var_take = PAGE_SIZE, var_skip = offset \<rparr>"

text \<open>Scenario A of the specification: one active position with a single settled leg
  that resolved as predicted; stakes 40 and 60.\<close>

definition condYes :: ConditionInfo where
  "condYes =
     \<lparr> cond_id = ''0xc1'', question = Some ''Will BTC close above 100k by December?'',
       shortName = Some ''BTC > 100k by Dec'', endTime = Some 1767225600,
       resolver = Some ''0xresolver'', settled = True, resolvedToYes = True \<rparr>"

definition legYes :: PredictionInfo where
  "legYes =
     \<lparr> conditionId = ''0xc1'', outcomeYes = True, chainId = Some 5064014,
       condition = Some condYes \<rparr>"

definition scenarioA :: ClaimablePosition where
  "scenarioA =
     \<lparr> pos_id = 1, pos_chainId = 5064014, marketAddress = ''0xmarket'',
       predictor = ''0xAbC1'', counterparty = ''0xDeF2'',
       predictorNftTokenId = ''11'', counterpartyNftTokenId = ''12'',
       totalCollateral = ''100'', predictorCollateral = Some ''40'',
       counterpartyCollateral = Some ''60'', refCode = None, status = ''active'',
       predictorWon = None, settledAt = None, predictions = [legYes] \<rparr>"

text \<open>Variants: no legs; a second leg without condition data; a second leg that
  resolved against the prediction; both sides held by the same wallet.\<close>

definition noLegs :: ClaimablePosition where
  "noLegs = scenarioA \<lparr> predictions := [] \<rparr>"

definition missingCondition :: ClaimablePosition where
  "missingCondition = scenarioA \<lparr> predictions := [legYes, legYes \<lparr> condition := None \<rparr>] \<rparr>"

definition legNo :: PredictionInfo where
  "legNo = legYes \<lparr> outcomeYes := False \<rparr>"

definition selfMatchedWon :: ClaimablePosition where
  "selfMatchedWon = scenarioA \<lparr> counterparty := ''0xABC1'' \<rparr>"

definition selfMatched :: ClaimablePosition where
  "selfMatched = scenarioA \<lparr> counterparty := ''0xABC1'', predictions := [legYes, legNo] \<rparr>"

text \<open>Scenario B of the specification: scenario A with the condition not yet settled.\<close>

definition scenarioB :: ClaimablePosition where
  "scenarioB =
     scenarioA \<lparr> predictions := [legYes \<lparr> condition := Some (condYes \<lparr> settled := False \<rparr>) \<rparr>] \<rparr>"

text \<open>Three winning positions of the wallet, with winnings of 1, 2 and 3 ether.\<close>

definition winner1 :: ClaimablePosition where
  "winner1 = scenarioA \<lparr> pos_id := 101, predictorNftTokenId := ''11'',
       totalCollateral := ''2000000000000000000'',
       predictorCollateral := Some ''1000000000000000000'',
       counterpartyCollateral := Some ''1000000000000000000'' \<rparr>"

definition winner2 :: ClaimablePosition where
  "winner2 = scenarioA \<lparr> pos_id := 102, predictorNftTokenId := ''21'',
       totalCollateral := ''5000000000000000000'',
       predictorCollateral := Some ''3000000000000000000'',
       counterpartyCollateral := Some ''2000000000000000000'' \<rparr>"

definition winner3 :: ClaimablePosition where
  "winner3 = scenarioA \<lparr> pos_id := 103, predictorNftTokenId := ''31'',
       totalCollateral := ''4000000000000000000'',
       predictorCollateral := Some ''1000000000000000000'',
       counterpartyCollateral := Some ''3000000000000000000'' \<rparr>"

definition winnerInfo :: "string \<Rightarrow> int \<Rightarrow> ClaimableInfo" where
  "winnerInfo tok amount =
     \<lparr> tokenId = tok, isWinner = True, winnings = amount, marketName = ''BTC > 100k by Dec'' \<rparr>"

definition threeWinners :: "ClaimableEntry list" where
  "threeWinners =
     [(winner1, winnerInfo ''11'' 1000000000000000000),
      (winner2, winnerInfo ''21'' 2000000000000000000),
      (winner3, winnerInfo ''31'' 3000000000000000000)]"

definition threeOutcomes :: "(thrown + tx_result) list" where
  "threeOutcomes =
     [Inr (TxObject (Some ''0xaa01'')), Inl (ThrownValue (Some ''execution reverted'')),
      Inr (TxObject (Some ''0xaa03''))]"


definition burnArgs :: "string \<Rightarrow> SubmitArgs" where
  "burnArgs tok =
     \<lparr> rpc = ''https://rpc.example'', sub_chainId = 5064014, sub_privateKey = ''0xkey'',
       tx_to = ''0xmarket'', tx_data = ''burn('' @ tok @ '','' @ zeroRefCode @ '')'',
       tx_value = ''0'' \<rparr>"

definition claimedResult :: "string \<Rightarrow> string \<Rightarrow> string \<Rightarrow> ClaimResult" where
  "claimedResult tok amount hash =
     \<lparr> res_tokenId = tok, res_marketName = ''BTC > 100k by Dec'', res_winnings = amount,
       txHash = Some hash, error = None \<rparr>"

definition failedResult :: "string \<Rightarrow> string \<Rightarrow> string \<Rightarrow> ClaimResult" where
  "failedResult tok amount msg =
     \<lparr> res_tokenId = tok, res_marketName = ''BTC > 100k by Dec'', res_winnings = amount,
       txHash = None, error = Some msg \<rparr>"

definition threeResults :: "ClaimResult list" where
  "threeResults =
     [claimedResult ''11'' ''1'' ''0xaa01'',
      failedResult ''21'' ''2'' ''execution reverted'',
      claimedResult ''31'' ''3'' ''0xaa03'']"

definition threeSummary :: ClaimSummary where
  "threeSummary =
     \<lparr> success = True, claimableCount = 3, winningCount = 3, losingCount = 0,
       successfulClaims = 2, failedClaims = 1, totalWinnings = ''6'',
       results = threeResults \<rparr>"

definition worldAfterThree :: World where
  "worldAfterThree =
     \<lparr> pendingPages = [], requestLog = [pageRequest exampleConfig 0], pendingOutcomes = [],
       submitLog = [burnArgs ''11'', burnArgs ''21'', burnArgs ''31''] \<rparr>"

section \<open>Evaluation lemmas for the examples\<close>

lemmas BigInt_eval =
  BigInt_def StringToBigInt_def trimString_def isStrWhiteSpace_def parseDigits1_def
  digitValue_def

lemmas toLowerCase_eval = toLowerCase_def toLowerCase_char_def

lemma BigInt_100: "BigInt ''100'' = Inr 100"
  by (simp add: BigInt_eval)

lemma BigInt_40: "BigInt ''40'' = Inr 40"
  by (simp add: BigInt_eval)

lemma BigInt_60: "BigInt ''60'' = Inr 60"
  by (simp add: BigInt_eval)

lemma lower_wallet: "toLowerCase ''0xabc1'' = ''0xabc1''"
  by (simp add: toLowerCase_eval)

lemma lower_predictor: "toLowerCase ''0xAbC1'' = ''0xabc1''"
  by (simp add: toLowerCase_eval)

lemma lower_self: "toLowerCase ''0xABC1'' = ''0xabc1''"
  by (simp add: toLowerCase_eval)

lemma lower_counterparty: "toLowerCase ''0xDeF2'' = ''0xdef2''"
  by (simp add: toLowerCase_eval)

lemma lower_taker: "toLowerCase ''0xDEF2'' = ''0xdef2''"
  by (simp add: toLowerCase_eval)

lemmas lower_eval = lower_wallet lower_predictor lower_self lower_counterparty lower_taker

lemma scenarioA_settled: "areAllConditionsSettled scenarioA"
  by (simp add: scenarioA_def areAllConditionsSettled_def legYes_def condYes_def)

lemma scenarioA_predictor_won: "didPredictorWin scenarioA"
  by (simp add: scenarioA_def didPredictorWin_def legYes_def condYes_def)

lemma scenarioA_marketName: "marketNameOf scenarioA = ''BTC > 100k by Dec''"
  by (simp add: marketNameOf_def firstCondition_def scenarioA_def legYes_def condYes_def
      or_else_def)

lemma scenarioB_unsettled: "\<not> areAllConditionsSettled scenarioB"
  by (simp add: scenarioB_def scenarioA_def areAllConditionsSettled_def legYes_def condYes_def)

lemma selfMatched_settled: "areAllConditionsSettled selfMatched"
  by (simp add: selfMatched_def scenarioA_def areAllConditionsSettled_def legYes_def legNo_def
      condYes_def)

lemma selfMatched_predictor_lost: "\<not> didPredictorWin selfMatched"
  by (simp add: selfMatched_def scenarioA_def didPredictorWin_def legYes_def legNo_def
      condYes_def)

lemma selfMatched_marketName: "marketNameOf selfMatched = ''BTC > 100k by Dec''"
  by (simp add: marketNameOf_def firstCondition_def selfMatched_def scenarioA_def legYes_def
      condYes_def or_else_def)

section \<open>\<open>BigInt\<close> on decimal strings\<close>

text \<open>Every non-empty string of decimal digits is accepted by \<open>BigInt\<close>, with its
  decimal value: the collateral amounts of the settlement index never make it throw.\<close>

lemma decimal_digit:
  assumes "c \<in> set ''0123456789''"
  shows "digitValue c = Some (of_char c - 48)" and "(of_char c :: nat) - 48 < 10"
    and "\<not> isStrWhiteSpace c"
    and "c \<notin> set ''xXoObB+-''"
  using assms by (auto simp: digitValue_def isStrWhiteSpace_def)

lemma parseDigits_decimal:
  "set s \<subseteq> set ''0123456789'' \<Longrightarrow>
     parseDigits 10 acc s = Some (foldl (\<lambda>a c. a * 10 + (of_char c - 48)) acc s)"
proof (induction s arbitrary: acc)
  case Nil
  show ?case by simp
next
  case (Cons c cs)
  from Cons.prems have c: "c \<in> set ''0123456789''" and cs: "set cs \<subseteq> set ''0123456789''"
    by auto
  show ?case
    using decimal_digit(1,2) [OF c] Cons.IH [OF cs] by simp
qed

lemma trimString_decimal:
  assumes "set s \<subseteq> set ''0123456789''"
  shows "trimString s = s"
proof -
  have clean: "\<not> isStrWhiteSpace c" if "c \<in> set s" for c
    using that assms decimal_digit(3) by blast
  have lead: "dropWhile isStrWhiteSpace s = s"
    by (cases s) (simp_all add: clean)
  have trail: "dropWhile isStrWhiteSpace (rev s) = rev s"
    by (cases s rule: rev_cases) (simp_all add: clean)
  show ?thesis
    by (simp add: trimString_def lead trail)
qed

lemma BigInt_decimal:
  assumes "s \<noteq> []" and "set s \<subseteq> set ''0123456789''"
  shows "BigInt s = Inr (int (foldl (\<lambda>a c. a * 10 + (of_char c - 48)) 0 s))"
proof -
  obtain c cs where s: "s = c # cs"
    using assms(1) by (cases s) auto
  with assms(2) have c: "c \<in> set ''0123456789''"
    by simp
  have first: "take 1 s \<noteq> ''+''" "take 1 s \<noteq> ''-''"
    using decimal_digit(4) [OF c] by (auto simp: s)
  have prefix: "take 2 s \<notin> {''0x'', ''0X'', ''0o'', ''0O'', ''0b'', ''0B''}"
  proof (cases cs)
    case Nil
    then show ?thesis by (simp add: s)
  next
    case (Cons d ds)
    with assms(2) s have "d \<in> set ''0123456789''"
      by simp
    from decimal_digit(4) [OF this] show ?thesis
      by (auto simp: s Cons)
  qed
  show ?thesis
    using first prefix assms(1)
    by (simp add: BigInt_def StringToBigInt_def trimString_decimal [OF assms(2)] Let_def
        parseDigits1_def parseDigits_decimal [OF assms(2)])
qed

section \<open>The eligibility evaluator: theorems\<close>

text \<open>
  Claim C3. For every position, \<open>didPredictorWin\<close> returns true if and only if the
  position has at least one leg and every leg has a condition that is settled and whose
  resolved outcome equals the leg's predicted outcome. One leg that mismatches, is
  unsettled or has no condition makes it false.
\<close>

theorem didPredictorWin_iff:
  "didPredictorWin p \<longleftrightarrow>
     predictions p \<noteq> [] \<and>
     (\<forall>leg \<in> set (predictions p).
        \<exists>c. condition leg = Some c \<and> settled c \<and> outcomeYes leg = resolvedToYes c)"
  by (auto simp: didPredictorWin_def list_all_iff split: option.splits)

theorem didPredictorWin_iff_witness:
  "didPredictorWin scenarioA \<and> predictions scenarioA = [legYes] \<and>
   condition legYes = Some condYes \<and> settled condYes \<and>
   outcomeYes legYes = resolvedToYes condYes \<and>
   \<not> didPredictorWin selfMatched \<and> predictions selfMatched = [legYes, legNo] \<and>
   condition legNo = Some condYes \<and> outcomeYes legNo \<noteq> resolvedToYes condYes"
proof -
  have won: "didPredictorWin scenarioA"
    using didPredictorWin_iff [of scenarioA]
    by (simp add: scenarioA_def legYes_def condYes_def)
  have lost: "\<not> didPredictorWin selfMatched"
    using didPredictorWin_iff [of selfMatched]
    by (simp add: selfMatched_def scenarioA_def legYes_def legNo_def condYes_def)
  from won lost show ?thesis
    by (simp add: selfMatched_def scenarioA_def legYes_def legNo_def condYes_def)
qed

text \<open>
  Claim C4. \<open>getClaimableInfo\<close> returns \<open>null\<close> (and does not throw) unless the wallet
  address equals the predictor or the counterparty address after lower-casing, the
  status is \<open>"active"\<close> and \<open>areAllConditionsSettled\<close> holds; in exactly those cases it
  does not return \<open>null\<close>. The handler's collecting loop skips such a position without
  an error: the claimable set is that of the remaining positions.
\<close>

theorem getClaimableInfo_gating:
  "(getClaimableInfo p w = Inr None \<longleftrightarrow>
      \<not> ((toLowerCase (predictor p) = toLowerCase w \<or>
           toLowerCase (counterparty p) = toLowerCase w) \<and>
          status p = ''active'' \<and> areAllConditionsSettled p)) \<and>
   (\<not> ((toLowerCase (predictor p) = toLowerCase w \<or>
         toLowerCase (counterparty p) = toLowerCase w) \<and>
        status p = ''active'' \<and> areAllConditionsSettled p) \<longrightarrow>
      collectClaimable (p # rest) w acc = collectClaimable rest w acc)"
proof -
  have null: "getClaimableInfo p w = Inr None \<longleftrightarrow>
      \<not> ((toLowerCase (predictor p) = toLowerCase w \<or>
           toLowerCase (counterparty p) = toLowerCase w) \<and>
          status p = ''active'' \<and> areAllConditionsSettled p)"
    by (auto simp: getClaimableInfo_def Let_def split: sum.splits)
  have "collectClaimable (p # rest) w acc = collectClaimable rest w acc"
    if "getClaimableInfo p w = Inr None"
    using that by simp
  with null show ?thesis by blast
qed

theorem getClaimableInfo_gating_witness:
  "getClaimableInfo scenarioB ''0xabc1'' = Inr None \<and>
   collectClaimable [scenarioB] ''0xabc1'' [] = Inr [] \<and>
   getClaimableInfo scenarioA ''0xfeed'' = Inr None \<and>
   getClaimableInfo scenarioA ''0xabc1'' \<noteq> Inr None"
proof -
  have stranger: "toLowerCase ''0xfeed'' = ''0xfeed''"
    by (simp add: toLowerCase_eval)
  have b: "getClaimableInfo scenarioB ''0xabc1'' = Inr None"
    and skip: "collectClaimable (scenarioB # []) ''0xabc1'' [] = collectClaimable [] ''0xabc1'' []"
    using getClaimableInfo_gating [of scenarioB "''0xabc1''" "[]" "[]"] scenarioB_unsettled
    by blast+
  have s: "getClaimableInfo scenarioA ''0xfeed'' = Inr None"
    using getClaimableInfo_gating [of scenarioA "''0xfeed''" "[]" "[]"]
    by (simp add: scenarioA_def lower_eval stranger)
  have a: "getClaimableInfo scenarioA ''0xabc1'' \<noteq> Inr None"
    using getClaimableInfo_gating [of scenarioA "''0xabc1''" "[]" "[]"] scenarioA_settled
    by (simp add: scenarioA_def lower_eval)
  from b skip s a show ?thesis by simp
qed

text \<open>
  Claim C6. A position with zero legs is never settled and never a win of the
  predictor, so \<open>getClaimableInfo\<close> returns \<open>null\<close> for it, whoever asks.
\<close>

theorem zero_legs_never_claimable:
  "predictions p = [] \<Longrightarrow>
     \<not> areAllConditionsSettled p \<and> \<not> didPredictorWin p \<and> getClaimableInfo p w = Inr None"
  by (simp add: areAllConditionsSettled_def didPredictorWin_def getClaimableInfo_def Let_def)

theorem zero_legs_never_claimable_witness:
  "predictions noLegs = [] \<and> \<not> areAllConditionsSettled noLegs \<and> \<not> didPredictorWin noLegs \<and>
   getClaimableInfo noLegs ''0xabc1'' = Inr None"
proof -
  have h: "predictions noLegs = []"
    by (simp add: noLegs_def)
  from zero_legs_never_claimable [OF h, of "''0xabc1''"] h show ?thesis by simp
qed

text \<open>
  Claim C9. When some leg of a position has no condition object, both
  \<open>areAllConditionsSettled\<close> and \<open>didPredictorWin\<close> are false and \<open>getClaimableInfo\<close>
  returns \<open>null\<close>: nothing is thrown, the position is treated as unsettled.
\<close>

theorem missing_condition_is_unsettled:
  assumes "leg \<in> set (predictions p)" and "condition leg = None"
  shows "\<not> areAllConditionsSettled p \<and> \<not> didPredictorWin p \<and> getClaimableInfo p w = Inr None"
proof -
  have a: "\<not> areAllConditionsSettled p"
    using assms by (auto simp: areAllConditionsSettled_def list_all_iff intro!: bexI [of _ leg])
  have b: "\<not> didPredictorWin p"
    using assms by (auto simp: didPredictorWin_def list_all_iff intro!: bexI [of _ leg])
  from a have "getClaimableInfo p w = Inr None"
    by (simp add: getClaimableInfo_def Let_def)
  with a b show ?thesis by simp
qed

theorem missing_condition_is_unsettled_witness:
  "legYes \<lparr> condition := None \<rparr> \<in> set (predictions missingCondition) \<and>
   condition (legYes \<lparr> condition := None \<rparr>) = None \<and>
   \<not> areAllConditionsSettled missingCondition \<and> \<not> didPredictorWin missingCondition \<and>
   getClaimableInfo missingCondition ''0xabc1'' = Inr None"
proof -
  have m: "legYes \<lparr> condition := None \<rparr> \<in> set (predictions missingCondition)"
    by (simp add: missingCondition_def)
  have n: "condition (legYes \<lparr> condition := None \<rparr>) = None"
    by simp
  from missing_condition_is_unsettled [OF m n, of "''0xabc1''"] m n show ?thesis by simp
qed

text \<open>
  Claim C2. For a position that passes the three gating checks, a caller that is
  exactly one of the two parties, and collateral strings that \<open>BigInt\<close> accepts (decimal
  integers), \<open>getClaimableInfo\<close> returns an info object: the caller is the winner iff
  it is the predictor and the predictor won, or the counterparty and the predictor did
  not win; a winner's winnings are the total collateral minus the caller's own stake,
  as exact integers, and a non-winner's winnings are zero.
\<close>

theorem getClaimableInfo_winner_winnings:
  assumes one: "(toLowerCase (predictor p) = toLowerCase w) \<noteq>
                (toLowerCase (counterparty p) = toLowerCase w)"
    and act: "status p = ''active''"
    and st: "areAllConditionsSettled p"
    and tot: "BigInt (totalCollateral p) = Inr t"
    and stake: "BigInt (or_else (if toLowerCase (predictor p) = toLowerCase w
                                 then predictorCollateral p
                                 else counterpartyCollateral p) ''0'') = Inr s"
  shows "getClaimableInfo p w =
           Inr (Some \<lparr> tokenId = (if toLowerCase (predictor p) = toLowerCase w
                                   then predictorNftTokenId p else counterpartyNftTokenId p),
                        isWinner =
                          ((toLowerCase (predictor p) = toLowerCase w \<and> didPredictorWin p) \<or>
                           (toLowerCase (counterparty p) = toLowerCase w \<and> \<not> didPredictorWin p)),
                        winnings =
                          (if (toLowerCase (predictor p) = toLowerCase w \<and> didPredictorWin p) \<or>
                              (toLowerCase (counterparty p) = toLowerCase w \<and> \<not> didPredictorWin p)
                           then t - s else 0),
                        marketName = marketNameOf p \<rparr>)"
  using assms by (auto simp: getClaimableInfo_def Let_def)

text \<open>Scenario A: the predictor asks and wins 60; the counterparty asks and gets 0.\<close>

theorem getClaimableInfo_winner_winnings_witness:
  "getClaimableInfo scenarioA ''0xabc1'' =
     Inr (Some \<lparr> tokenId = ''11'', isWinner = True, winnings = 60,
                  marketName = ''BTC > 100k by Dec'' \<rparr>) \<and>
   getClaimableInfo scenarioA ''0xDEF2'' =
     Inr (Some \<lparr> tokenId = ''12'', isWinner = False, winnings = 0,
                  marketName = ''BTC > 100k by Dec'' \<rparr>)"
proof -
  have p: "toLowerCase (predictor scenarioA) = ''0xabc1''"
    and c: "toLowerCase (counterparty scenarioA) = ''0xdef2''"
    by (simp_all add: scenarioA_def lower_eval)
  have act: "status scenarioA = ''active''"
    by (simp add: scenarioA_def)
  have tot: "BigInt (totalCollateral scenarioA) = Inr 100"
    by (simp add: scenarioA_def BigInt_100)
  have one1: "(toLowerCase (predictor scenarioA) = toLowerCase ''0xabc1'') \<noteq>
              (toLowerCase (counterparty scenarioA) = toLowerCase ''0xabc1'')"
    by (simp add: p c lower_eval)
  have stake1: "BigInt (or_else (if toLowerCase (predictor scenarioA) = toLowerCase ''0xabc1''
                                 then predictorCollateral scenarioA
                                 else counterpartyCollateral scenarioA) ''0'') = Inr 40"
    by (simp add: p lower_eval) (simp add: scenarioA_def or_else_def BigInt_40)
  have one2: "(toLowerCase (predictor scenarioA) = toLowerCase ''0xDEF2'') \<noteq>
              (toLowerCase (counterparty scenarioA) = toLowerCase ''0xDEF2'')"
    by (simp add: p c lower_eval)
  have stake2: "BigInt (or_else (if toLowerCase (predictor scenarioA) = toLowerCase ''0xDEF2''
                                 then predictorCollateral scenarioA
                                 else counterpartyCollateral scenarioA) ''0'') = Inr 60"
    by (simp add: p lower_eval) (simp add: scenarioA_def or_else_def BigInt_60)
  have r1: "getClaimableInfo scenarioA ''0xabc1'' =
     Inr (Some \<lparr> tokenId = ''11'', isWinner = True, winnings = 60,
                  marketName = ''BTC > 100k by Dec'' \<rparr>)"
    using getClaimableInfo_winner_winnings [OF one1 act scenarioA_settled tot stake1]
    by (simp add: p c lower_eval scenarioA_predictor_won scenarioA_marketName)
       (simp add: scenarioA_def)
  have r2: "getClaimableInfo scenarioA ''0xDEF2'' =
     Inr (Some \<lparr> tokenId = ''12'', isWinner = False, winnings = 0,
                  marketName = ''BTC > 100k by Dec'' \<rparr>)"
    using getClaimableInfo_winner_winnings [OF one2 act scenarioA_settled tot stake2]
    by (simp add: p c lower_eval scenarioA_predictor_won scenarioA_marketName)
       (simp add: scenarioA_def)
  from r1 r2 show ?thesis by simp
qed

text \<open>
  Claim C8. When the three collateral strings are integers with non-negative stakes
  and the total is the sum of the two stakes, \<open>getClaimableInfo\<close> does not throw, and
  the winnings of any info object it returns are non-negative, and zero when the caller
  is not the winner.
\<close>

theorem winnings_nonnegative:
  assumes tot: "BigInt (totalCollateral p) = Inr t"
    and ps: "BigInt (or_else (predictorCollateral p) ''0'') = Inr a"
    and cs: "BigInt (or_else (counterpartyCollateral p) ''0'') = Inr b"
    and nonneg: "0 \<le> a" "0 \<le> b"
    and inv: "t = a + b"
  shows "\<exists>r. getClaimableInfo p w = Inr r \<and>
           (\<forall>info. r = Some info \<longrightarrow>
              0 \<le> winnings info \<and> (\<not> isWinner info \<longrightarrow> winnings info = 0))"
  using assms by (auto simp: getClaimableInfo_def Let_def)

theorem winnings_nonnegative_witness:
  "BigInt (totalCollateral scenarioA) = Inr 100 \<and>
   BigInt (or_else (predictorCollateral scenarioA) ''0'') = Inr 40 \<and>
   BigInt (or_else (counterpartyCollateral scenarioA) ''0'') = Inr 60 \<and>
   (0::int) \<le> 40 \<and> (0::int) \<le> 60 \<and> (100::int) = 40 + 60 \<and>
   (\<exists>info. getClaimableInfo scenarioA ''0xabc1'' = Inr (Some info) \<and> 0 \<le> winnings info \<and>
      (\<not> isWinner info \<longrightarrow> winnings info = 0))"
proof -
  have tot: "BigInt (totalCollateral scenarioA) = Inr 100"
    by (simp add: scenarioA_def BigInt_100)
  have ps: "BigInt (or_else (predictorCollateral scenarioA) ''0'') = Inr 40"
    by (simp add: scenarioA_def or_else_def BigInt_40)
  have cs: "BigInt (or_else (counterpartyCollateral scenarioA) ''0'') = Inr 60"
    by (simp add: scenarioA_def or_else_def BigInt_60)
  have gate: "getClaimableInfo scenarioA ''0xabc1'' \<noteq> Inr None"
    using scenarioA_settled
    by (simp add: getClaimableInfo_def Let_def scenarioA_def lower_eval split: sum.splits)
  from winnings_nonnegative [OF tot ps cs, of "''0xabc1''"]
  obtain r where r: "getClaimableInfo scenarioA ''0xabc1'' = Inr r"
    and v: "\<forall>info. r = Some info \<longrightarrow>
              0 \<le> winnings info \<and> (\<not> isWinner info \<longrightarrow> winnings info = 0)"
    by auto
  from r gate obtain info where "r = Some info"
    by (cases r) auto
  with r v have "getClaimableInfo scenarioA ''0xabc1'' = Inr (Some info) \<and> 0 \<le> winnings info \<and>
      (\<not> isWinner info \<longrightarrow> winnings info = 0)"
    by simp
  with tot ps cs show ?thesis by auto
qed

text \<open>
  Claim C10. When the predictor and the counterparty address both equal the caller's
  address after lower-casing, a position that passes the gating is evaluated on the
  predictor's side: the token id is the predictor's, the stake subtracted is the
  predictor's, and the caller is reported as the winner whether or not the predictor
  won.
\<close>

theorem both_sides_same_wallet:
  assumes "toLowerCase (predictor p) = toLowerCase w"
    and "toLowerCase (counterparty p) = toLowerCase w"
    and "status p = ''active''"
    and "areAllConditionsSettled p"
    and "BigInt (totalCollateral p) = Inr t"
    and "BigInt (or_else (predictorCollateral p) ''0'') = Inr s"
  shows "getClaimableInfo p w =
           Inr (Some \<lparr> tokenId = predictorNftTokenId p, isWinner = True, winnings = t - s,
                        marketName = marketNameOf p \<rparr>)"
  using assms by (auto simp: getClaimableInfo_def Let_def)

text \<open>The same wallet on both sides, once with a lost and once with a won prediction.\<close>

theorem both_sides_same_wallet_witness:
  "\<not> didPredictorWin selfMatched \<and>
   getClaimableInfo selfMatched ''0xabc1'' =
     Inr (Some \<lparr> tokenId = ''11'', isWinner = True, winnings = 60,
                  marketName = ''BTC > 100k by Dec'' \<rparr>) \<and>
   didPredictorWin selfMatchedWon \<and>
   getClaimableInfo selfMatchedWon ''0xabc1'' =
     Inr (Some \<lparr> tokenId = ''11'', isWinner = True, winnings = 60,
                  marketName = ''BTC > 100k by Dec'' \<rparr>)"
proof -
  have won: "didPredictorWin selfMatchedWon"
    and settled_won: "areAllConditionsSettled selfMatchedWon"
    by (simp_all add: selfMatchedWon_def scenarioA_def didPredictorWin_def
        areAllConditionsSettled_def legYes_def condYes_def)
  have name_won: "marketNameOf selfMatchedWon = ''BTC > 100k by Dec''"
    by (simp add: marketNameOf_def firstCondition_def selfMatchedWon_def scenarioA_def
        legYes_def condYes_def or_else_def)
  have p_won: "toLowerCase (predictor selfMatchedWon) = toLowerCase ''0xabc1''"
    and c_won: "toLowerCase (counterparty selfMatchedWon) = toLowerCase ''0xabc1''"
    by (simp_all add: selfMatchedWon_def scenarioA_def lower_eval)
  have act_won: "status selfMatchedWon = ''active''"
    by (simp add: selfMatchedWon_def scenarioA_def)
  have tot_won: "BigInt (totalCollateral selfMatchedWon) = Inr 100"
    by (simp add: selfMatchedWon_def scenarioA_def BigInt_100)
  have stake_won: "BigInt (or_else (predictorCollateral selfMatchedWon) ''0'') = Inr 40"
    by (simp add: selfMatchedWon_def scenarioA_def or_else_def BigInt_40)
  have info_won: "getClaimableInfo selfMatchedWon ''0xabc1'' =
     Inr (Some \<lparr> tokenId = ''11'', isWinner = True, winnings = 60,
                  marketName = ''BTC > 100k by Dec'' \<rparr>)"
    using both_sides_same_wallet [OF p_won c_won act_won settled_won tot_won stake_won]
    by (simp add: name_won) (simp add: selfMatchedWon_def scenarioA_def)
  have p: "toLowerCase (predictor selfMatched) = toLowerCase ''0xabc1''"
    and c: "toLowerCase (counterparty selfMatched) = toLowerCase ''0xabc1''"
    by (simp_all add: selfMatched_def scenarioA_def lower_eval)
  have act: "status selfMatched = ''active''"
    by (simp add: selfMatched_def scenarioA_def)
  have tot: "BigInt (totalCollateral selfMatched) = Inr 100"
    by (simp add: selfMatched_def scenarioA_def BigInt_100)
  have stake: "BigInt (or_else (predictorCollateral selfMatched) ''0'') = Inr 40"
    by (simp add: selfMatched_def scenarioA_def or_else_def BigInt_40)
  have "getClaimableInfo selfMatched ''0xabc1'' =
     Inr (Some \<lparr> tokenId = ''11'', isWinner = True, winnings = 60,
                  marketName = ''BTC > 100k by Dec'' \<rparr>)"
    using both_sides_same_wallet [OF p c act selfMatched_settled tot stake]
    by (simp add: selfMatched_marketName) (simp add: selfMatched_def scenarioA_def)
  with selfMatched_predictor_lost won info_won show ?thesis by simp
qed

section \<open>The settlement reader: theorems\<close>

text \<open>One request to the scripted index: it serves its next page (an empty one when
  none is left) and logs the request.\<close>

lemma graphqlRequest_scripted:
  assumes "fetch env = scriptedFetch"
  shows "graphqlRequest env w endpoint variables =
           (Inr \<lparr> positions = (case pendingPages w of [] \<Rightarrow> [] | page # _ \<Rightarrow> page) \<rparr>,
            w \<lparr> pendingPages := drop 1 (pendingPages w),
                requestLog := requestLog w @ [variables] \<rparr>)"
  by (simp add: graphqlRequest_def assms scriptedFetch_def okResponse_def)

text \<open>The loop over full pages followed by a short page, from any offset and with
  any positions accumulated so far.\<close>

lemma fetchLoop_until_short_page:
  assumes env: "fetch env = scriptedFetch"
    and short: "length lastPage < PAGE_SIZE"
  shows "\<forall>page \<in> set fullPages. PAGE_SIZE \<le> length page \<Longrightarrow>
         fetchLoop env cfg
           \<lparr> pendingPages = fullPages @ lastPage # rest, requestLog = log,
             pendingOutcomes = outcomes, submitLog = sent \<rparr> acc offset =
         Some (Inr (acc @ concat fullPages @ lastPage),
               \<lparr> pendingPages = rest,
                 requestLog = log @ map (\<lambda>k. pageRequest cfg (offset + k * PAGE_SIZE))
                                      [0..<Suc (length fullPages)],
                 pendingOutcomes = outcomes, submitLog = sent \<rparr>)"
proof (induction fullPages arbitrary: log acc offset)
  case Nil
  show ?case
    by (subst fetchLoop.simps)
       (simp add: graphqlRequest_scripted [OF env] short pageRequest_def)
next
  case (Cons page pages)
  from Cons.prems have full: "\<not> length page < PAGE_SIZE"
    and rest: "\<forall>page \<in> set pages. PAGE_SIZE \<le> length page"
    by auto
  have shift: "map (\<lambda>k. pageRequest cfg (offset + k * PAGE_SIZE)) [0..<Suc (Suc (length pages))] =
      pageRequest cfg offset #
      map (\<lambda>k. pageRequest cfg (offset + PAGE_SIZE + k * PAGE_SIZE)) [0..<Suc (length pages)]"
    by (simp only: map_upt_Suc [of _ "Suc (length pages)"]) (simp add: ac_simps)
  show ?case
    apply (subst fetchLoop.simps)
    apply (simp add: graphqlRequest_scripted [OF env] full del: upt_Suc)
    apply (simp add: Cons.IH [OF rest] shift del: upt_Suc)
    apply (simp add: pageRequest_def)
    done
qed

text \<open>The loop over full pages only: the request after the last of them is answered
  with an empty page, which ends the loop.\<close>

lemma fetchLoop_until_exhausted:
  assumes env: "fetch env = scriptedFetch"
  shows "\<forall>page \<in> set fullPages. PAGE_SIZE \<le> length page \<Longrightarrow>
         fetchLoop env cfg
           \<lparr> pendingPages = fullPages, requestLog = log,
             pendingOutcomes = outcomes, submitLog = sent \<rparr> acc offset =
         Some (Inr (acc @ concat fullPages),
               \<lparr> pendingPages = [],
                 requestLog = log @ map (\<lambda>k. pageRequest cfg (offset + k * PAGE_SIZE))
                                      [0..<Suc (length fullPages)],
                 pendingOutcomes = outcomes, submitLog = sent \<rparr>)"
proof (induction fullPages arbitrary: log acc offset)
  case Nil
  show ?case
    by (subst fetchLoop.simps)
       (simp add: graphqlRequest_scripted [OF env] PAGE_SIZE_def pageRequest_def)
next
  case (Cons page pages)
  from Cons.prems have full: "\<not> length page < PAGE_SIZE"
    and rest: "\<forall>page \<in> set pages. PAGE_SIZE \<le> length page"
    by auto
  have shift: "map (\<lambda>k. pageRequest cfg (offset + k * PAGE_SIZE)) [0..<Suc (Suc (length pages))] =
      pageRequest cfg offset #
      map (\<lambda>k. pageRequest cfg (offset + PAGE_SIZE + k * PAGE_SIZE)) [0..<Suc (length pages)]"
    by (simp only: map_upt_Suc [of _ "Suc (length pages)"]) (simp add: ac_simps)
  show ?case
    apply (subst fetchLoop.simps)
    apply (simp add: graphqlRequest_scripted [OF env] full del: upt_Suc)
    apply (simp add: Cons.IH [OF rest] shift del: upt_Suc)
    apply (simp add: pageRequest_def)
    done
qed

text \<open>
  Claim C5. The reader asks for pages of \<open>PAGE_SIZE = 100\<close> positions at the offsets
  0, 100, 200, ... and accumulates them. Against an index that serves the pages
  \<open>fullPages\<close>, all of at least 100 positions, and then a page \<open>lastPage\<close> of fewer than
  100, it returns after exactly \<open>length fullPages + 1\<close> requests with the positions of
  all these pages in order, and leaves the later pages alone. When the index has only
  full pages, one more request is made; the empty page it receives ends the loop.
\<close>

theorem fetchLoop_paging:
  assumes "fetch env = scriptedFetch"
    and "\<forall>page \<in> set fullPages. PAGE_SIZE \<le> length page"
    and "length lastPage < PAGE_SIZE"
  shows "PAGE_SIZE = 100 \<and>
         fetchLoop env cfg (exampleWorld (fullPages @ lastPage # rest) outcomes) [] 0 =
           Some (Inr (concat fullPages @ lastPage),
                 \<lparr> pendingPages = rest,
                   requestLog = map (\<lambda>k. pageRequest cfg (k * PAGE_SIZE))
                                  [0..<length fullPages + 1],
                   pendingOutcomes = outcomes, submitLog = [] \<rparr>) \<and>
         fetchLoop env cfg (exampleWorld fullPages outcomes) [] 0 =
           Some (Inr (concat fullPages),
                 \<lparr> pendingPages = [],
                   requestLog = map (\<lambda>k. pageRequest cfg (k * PAGE_SIZE))
                                  [0..<length fullPages + 1],
                   pendingOutcomes = outcomes, submitLog = [] \<rparr>)"
  using fetchLoop_until_short_page [OF assms(1,3,2), of cfg rest "[]" outcomes "[]" "[]" 0]
    fetchLoop_until_exhausted [OF assms(1,2), of cfg "[]" outcomes "[]" "[]" 0]
  by (simp add: exampleWorld_def PAGE_SIZE_def del: upt_Suc)

text \<open>Pages of 100, 100 and 37 positions: three requests, 237 positions. Pages of 100,
  100 and 100 positions: a fourth request, at offset 300.\<close>

theorem fetchLoop_paging_witness:
  "fetchLoop exampleEnv exampleConfig
     (exampleWorld [replicate 100 scenarioA, replicate 100 scenarioA, replicate 37 scenarioA] [])
     [] 0 =
     Some (Inr (replicate 237 scenarioA),
           \<lparr> pendingPages = [],
             requestLog = [pageRequest exampleConfig 0, pageRequest exampleConfig 100,
                           pageRequest exampleConfig 200],
             pendingOutcomes = [], submitLog = [] \<rparr>) \<and>
   fetchLoop exampleEnv exampleConfig
     (exampleWorld [replicate 100 scenarioA, replicate 100 scenarioA, replicate 100 scenarioA] [])
     [] 0 =
     Some (Inr (replicate 300 scenarioA),
           \<lparr> pendingPages = [],
             requestLog = [pageRequest exampleConfig 0, pageRequest exampleConfig 100,
                           pageRequest exampleConfig 200, pageRequest exampleConfig 300],
             pendingOutcomes = [], submitLog = [] \<rparr>)"
proof -
  have env: "fetch exampleEnv = scriptedFetch"
    by (simp add: exampleEnv_def)
  have two: "\<forall>page \<in> set [replicate 100 scenarioA, replicate 100 scenarioA].
               PAGE_SIZE \<le> length page"
    by (simp add: PAGE_SIZE_def)
  have three: "\<forall>page \<in> set [replicate 100 scenarioA, replicate 100 scenarioA,
                               replicate 100 scenarioA]. PAGE_SIZE \<le> length page"
    by (simp add: PAGE_SIZE_def)
  have short: "length (replicate 37 scenarioA) < PAGE_SIZE"
    by (simp add: PAGE_SIZE_def)
  have a: "fetchLoop exampleEnv exampleConfig
     (exampleWorld [replicate 100 scenarioA, replicate 100 scenarioA, replicate 37 scenarioA] [])
     [] 0 =
     Some (Inr (replicate 237 scenarioA),
           \<lparr> pendingPages = [],
             requestLog = [pageRequest exampleConfig 0, pageRequest exampleConfig 100,
                           pageRequest exampleConfig 200],
             pendingOutcomes = [], submitLog = [] \<rparr>)"
    using fetchLoop_paging [OF env two short, of exampleConfig "[]" "[]"]
    by (simp add: PAGE_SIZE_def replicate_add [symmetric])
  have b: "fetchLoop exampleEnv exampleConfig
     (exampleWorld [replicate 100 scenarioA, replicate 100 scenarioA, replicate 100 scenarioA] [])
     [] 0 =
     Some (Inr (replicate 300 scenarioA),
           \<lparr> pendingPages = [],
             requestLog = [pageRequest exampleConfig 0, pageRequest exampleConfig 100,
                           pageRequest exampleConfig 200, pageRequest exampleConfig 300],
             pendingOutcomes = [], submitLog = [] \<rparr>)"
    using fetchLoop_paging [OF env three short, of exampleConfig "[]" "[]"]
    by (simp add: PAGE_SIZE_def replicate_add [symmetric])
  from a b show ?thesis by simp
qed

section \<open>The claim loop: theorems\<close>

text \<open>The results pushed so far are only extended, and an error that leaves the loop
  is passed on.\<close>

lemma claimLoop_results:
  "claimLoop env cfg submit entries pushed w =
     (case claimLoop env cfg submit entries [] w of
        (Inl e, w') \<Rightarrow> (Inl e, w')
      | (Inr rs, w') \<Rightarrow> (Inr (pushed @ rs), w'))"
proof (induction entries arbitrary: pushed w)
  case Nil
  show ?case by simp
next
  case (Cons entry rest)
  obtain o1 w1 where one: "claimOne env cfg submit entry w = (o1, w1)"
    by (cases "claimOne env cfg submit entry w")
  show ?case
  proof (cases o1)
    case (Inl e)
    with one show ?thesis by simp
  next
    case (Inr r)
    obtain o2 w2 where more: "claimLoop env cfg submit rest [] w1 = (o2, w2)"
      by (cases "claimLoop env cfg submit rest [] w1")
    show ?thesis
      using Cons.IH [of "pushed @ [r]" w1] Cons.IH [of "[r]" w1]
      by (cases o2) (simp_all add: one Inr more)
  qed
qed

lemma claimLoop_Cons:
  "claimLoop env cfg submit (entry # rest) [] w =
     (case claimOne env cfg submit entry w of
        (Inl e, w1) \<Rightarrow> (Inl e, w1)
      | (Inr r, w1) \<Rightarrow>
          (case claimLoop env cfg submit rest [] w1 of
             (Inl e, w2) \<Rightarrow> (Inl e, w2)
           | (Inr rs, w2) \<Rightarrow> (Inr (r # rs), w2)))"
proof -
  obtain o1 w1 where one: "claimOne env cfg submit entry w = (o1, w1)"
    by (cases "claimOne env cfg submit entry w")
  show ?thesis
  proof (cases o1)
    case (Inl e)
    with one show ?thesis by simp
  next
    case (Inr r)
    show ?thesis
      using claimLoop_results [of env cfg submit rest "[r]" w1]
      by (simp add: one Inr split: prod.splits sum.splits)
  qed
qed


lemma claimLoop_stops:
  assumes "claimLoop env cfg submit before [] w = (Inr rs1, w1)"
    and "claimOne env cfg submit entry w1 = (Inl e, w2)"
  shows "claimLoop env cfg submit (before @ entry # after) [] w = (Inl e, w2)"
  using assms
proof (induction before arbitrary: w rs1)
  case Nil
  then show ?case
    by (simp only: append_Nil claimLoop_Cons) simp
next
  case (Cons first rest)
  from Cons.prems(1) obtain r0 v rs0
    where first: "claimOne env cfg submit first w = (Inr r0, v)"
      and rest: "claimLoop env cfg submit rest [] v = (Inr rs0, w1)"
    by (simp only: claimLoop_Cons) (auto split: prod.splits sum.splits)
  from Cons.IH [OF rest Cons.prems(2)] first show ?case
    by (simp only: append_Cons claimLoop_Cons) simp
qed

lemma claimLoop_length:
  "claimLoop env cfg submit entries [] w = (Inr rs, w') \<Longrightarrow> length rs = length entries"
proof (induction entries arbitrary: w rs)
  case Nil
  then show ?case by simp
next
  case (Cons entry rest)
  from Cons.prems obtain r v rs0
    where "claimLoop env cfg submit rest [] v = (Inr rs0, w')" and "rs = r # rs0"
    by (simp only: claimLoop_Cons) (auto split: prod.splits sum.splits)
  with Cons.IH show ?case by auto
qed




section \<open>The three winning positions, step by step\<close>

lemma formatEther_1: "viem_formatEther 1000000000000000000 = ''1''"
  by (simp add: viem_formatEther_def Let_def)

lemma formatEther_2: "viem_formatEther 2000000000000000000 = ''2''"
  by (simp add: viem_formatEther_def Let_def)

lemma formatEther_3: "viem_formatEther 3000000000000000000 = ''3''"
  by (simp add: viem_formatEther_def Let_def)

lemma formatEther_4: "viem_formatEther 4000000000000000000 = ''4''"
  by (simp add: viem_formatEther_def Let_def)

lemma formatEther_6: "viem_formatEther 6000000000000000000 = ''6''"
  by (simp add: viem_formatEther_def Let_def)

lemma winner1_info:
  "getClaimableInfo winner1 ''0xabc1'' = Inr (Some (winnerInfo ''11'' 1000000000000000000))"
proof -
  have "BigInt ''2000000000000000000'' = Inr 2000000000000000000"
    and "BigInt ''1000000000000000000'' = Inr 1000000000000000000"
    by (simp_all add: BigInt_eval)
  then show ?thesis
    by (simp add: getClaimableInfo_def Let_def winner1_def scenarioA_def lower_eval
        areAllConditionsSettled_def didPredictorWin_def legYes_def condYes_def or_else_def
        marketNameOf_def firstCondition_def winnerInfo_def)
qed

lemma winner2_info:
  "getClaimableInfo winner2 ''0xabc1'' = Inr (Some (winnerInfo ''21'' 2000000000000000000))"
proof -
  have "BigInt ''5000000000000000000'' = Inr 5000000000000000000"
    and "BigInt ''3000000000000000000'' = Inr 3000000000000000000"
    by (simp_all add: BigInt_eval)
  then show ?thesis
    by (simp add: getClaimableInfo_def Let_def winner2_def scenarioA_def lower_eval
        areAllConditionsSettled_def didPredictorWin_def legYes_def condYes_def or_else_def
        marketNameOf_def firstCondition_def winnerInfo_def)
qed

lemma winner3_info:
  "getClaimableInfo winner3 ''0xabc1'' = Inr (Some (winnerInfo ''31'' 3000000000000000000))"
proof -
  have "BigInt ''4000000000000000000'' = Inr 4000000000000000000"
    and "BigInt ''1000000000000000000'' = Inr 1000000000000000000"
    by (simp_all add: BigInt_eval)
  then show ?thesis
    by (simp add: getClaimableInfo_def Let_def winner3_def scenarioA_def lower_eval
        areAllConditionsSettled_def didPredictorWin_def legYes_def condYes_def or_else_def
        marketNameOf_def firstCondition_def winnerInfo_def)
qed

lemma collect_three:
  "collectClaimable [winner1, winner2, winner3] ''0xabc1'' [] = Inr threeWinners"
  by (simp add: winner1_info winner2_info winner3_info threeWinners_def)

lemma fetch_three:
  "fetchLoop exampleEnv exampleConfig (exampleWorld [[winner1, winner2, winner3]] outcomes) [] 0 =
     Some (Inr [winner1, winner2, winner3],
           \<lparr> pendingPages = [], requestLog = [pageRequest exampleConfig 0],
             pendingOutcomes = outcomes, submitLog = [] \<rparr>)"
proof -
  have env: "fetch exampleEnv = scriptedFetch"
    by (simp add: exampleEnv_def)
  have short: "length [winner1, winner2, winner3] < PAGE_SIZE"
    by (simp add: PAGE_SIZE_def)
  show ?thesis
    using fetchLoop_until_short_page [OF env short, of "[]" exampleConfig "[]" "[]" outcomes "[]" "[]" 0]
    by (simp add: exampleWorld_def)
qed

lemma token_11: "BigInt ''11'' = Inr 11"
  by (simp add: BigInt_eval)

lemma token_21: "BigInt ''21'' = Inr 21"
  by (simp add: BigInt_eval)

lemma token_31: "BigInt ''31'' = Inr 31"
  by (simp add: BigInt_eval)

lemma env_encode: "encodeFunctionData exampleEnv = exampleEncode"
  by (simp add: exampleEnv_def)

lemma env_format: "formatEther exampleEnv = viem_formatEther"
  by (simp add: exampleEnv_def)

lemma winnerInfo_tokenId: "tokenId (winnerInfo tok amount) = tok"
  by (simp add: winnerInfo_def)

lemma winnerInfo_marketName: "marketName (winnerInfo tok amount) = ''BTC > 100k by Dec''"
  by (simp add: winnerInfo_def)

lemma winnerInfo_winnings: "winnings (winnerInfo tok amount) = amount"
  by (simp add: winnerInfo_def)

lemma winner1_refCode: "refCode winner1 = None"
  by (simp add: winner1_def scenarioA_def)

lemma winner2_refCode: "refCode winner2 = None"
  by (simp add: winner2_def scenarioA_def)

lemma winner3_refCode: "refCode winner3 = None"
  by (simp add: winner3_def scenarioA_def)

lemma encode_11: "exampleEncode 11 zeroRefCode = Inr (tx_data (burnArgs ''11''))"
  by (simp add: exampleEncode_def showInt_def burnArgs_def)

lemma encode_21: "exampleEncode 21 zeroRefCode = Inr (tx_data (burnArgs ''21''))"
  by (simp add: exampleEncode_def showInt_def burnArgs_def)

lemma encode_31: "exampleEncode 31 zeroRefCode = Inr (tx_data (burnArgs ''31''))"
  by (simp add: exampleEncode_def showInt_def burnArgs_def)

lemma burnArgs_eq: "burnTransaction exampleConfig (tx_data (burnArgs tok)) = burnArgs tok"
  by (simp add: burnTransaction_def burnArgs_def exampleConfig_def)

lemma attempt_winner1:
  "attemptClaim exampleEnv exampleConfig scriptedSubmit
     (winner1, winnerInfo ''11'' 1000000000000000000)
     \<lparr> pendingPages = pages, requestLog = log, pendingOutcomes = outcome # outcomes,
       submitLog = sent \<rparr> =
   (case outcome of
      Inl t \<Rightarrow> Inl t
    | Inr TxNull \<Rightarrow> Inl (ThrownValue (Some (message (nullishTypeError ''null'' ''hash''))))
    | Inr TxUndefined \<Rightarrow>
        Inl (ThrownValue (Some (message (nullishTypeError ''undefined'' ''hash''))))
    | Inr (TxObject hash) \<Rightarrow> Inr hash,
    \<lparr> pendingPages = pages, requestLog = log, pendingOutcomes = outcomes,
      submitLog = sent @ [burnArgs ''11''] \<rparr>)"
  by (simp add: attemptClaim_def winnerInfo_tokenId token_11 winner1_refCode or_else_def
      env_encode encode_11 burnArgs_eq scriptedSubmit_def
      split: sum.splits tx_result.splits)

lemma attempt_winner2:
  "attemptClaim exampleEnv exampleConfig scriptedSubmit
     (winner2, winnerInfo ''21'' 2000000000000000000)
     \<lparr> pendingPages = pages, requestLog = log, pendingOutcomes = outcome # outcomes,
       submitLog = sent \<rparr> =
   (case outcome of
      Inl t \<Rightarrow> Inl t
    | Inr TxNull \<Rightarrow> Inl (ThrownValue (Some (message (nullishTypeError ''null'' ''hash''))))
    | Inr TxUndefined \<Rightarrow>
        Inl (ThrownValue (Some (message (nullishTypeError ''undefined'' ''hash''))))
    | Inr (TxObject hash) \<Rightarrow> Inr hash,
    \<lparr> pendingPages = pages, requestLog = log, pendingOutcomes = outcomes,
      submitLog = sent @ [burnArgs ''21''] \<rparr>)"
  by (simp add: attemptClaim_def winnerInfo_tokenId token_21 winner2_refCode or_else_def
      env_encode encode_21 burnArgs_eq scriptedSubmit_def
      split: sum.splits tx_result.splits)

lemma attempt_winner3:
  "attemptClaim exampleEnv exampleConfig scriptedSubmit
     (winner3, winnerInfo ''31'' 3000000000000000000)
     \<lparr> pendingPages = pages, requestLog = log, pendingOutcomes = outcome # outcomes,
       submitLog = sent \<rparr> =
   (case outcome of
      Inl t \<Rightarrow> Inl t
    | Inr TxNull \<Rightarrow> Inl (ThrownValue (Some (message (nullishTypeError ''null'' ''hash''))))
    | Inr TxUndefined \<Rightarrow>
        Inl (ThrownValue (Some (message (nullishTypeError ''undefined'' ''hash''))))
    | Inr (TxObject hash) \<Rightarrow> Inr hash,
    \<lparr> pendingPages = pages, requestLog = log, pendingOutcomes = outcomes,
      submitLog = sent @ [burnArgs ''31''] \<rparr>)"
  by (simp add: attemptClaim_def winnerInfo_tokenId token_31 winner3_refCode or_else_def
      env_encode encode_31 burnArgs_eq scriptedSubmit_def
      split: sum.splits tx_result.splits)

lemma claim_winner1:
  "claimOne exampleEnv exampleConfig scriptedSubmit
     (winner1, winnerInfo ''11'' 1000000000000000000)
     \<lparr> pendingPages = pages, requestLog = log,
       pendingOutcomes = Inr (TxObject (Some hash)) # outcomes, submitLog = sent \<rparr> =
   (Inr (claimedResult ''11'' ''1'' hash),
    \<lparr> pendingPages = pages, requestLog = log, pendingOutcomes = outcomes,
      submitLog = sent @ [burnArgs ''11''] \<rparr>)"
  by (simp add: claimOne_def attempt_winner1 winnerInfo_tokenId winnerInfo_marketName
      winnerInfo_winnings env_format claimedResult_def formatEther_1)


lemma claim_winner2:
  "claimOne exampleEnv exampleConfig scriptedSubmit
     (winner2, winnerInfo ''21'' 2000000000000000000)
     \<lparr> pendingPages = pages, requestLog = log,
       pendingOutcomes = Inl (ThrownValue (Some m)) # outcomes, submitLog = sent \<rparr> =
   (Inr (failedResult ''21'' ''2'' m),
    \<lparr> pendingPages = pages, requestLog = log, pendingOutcomes = outcomes,
      submitLog = sent @ [burnArgs ''21''] \<rparr>)"
  by (simp add: claimOne_def attempt_winner2 catchClaim_def winnerInfo_tokenId
      winnerInfo_marketName winnerInfo_winnings env_format failedResult_def formatEther_2)


lemma claim_winner3:
  "claimOne exampleEnv exampleConfig scriptedSubmit
     (winner3, winnerInfo ''31'' 3000000000000000000)
     \<lparr> pendingPages = pages, requestLog = log,
       pendingOutcomes = Inr (TxObject (Some hash)) # outcomes, submitLog = sent \<rparr> =
   (Inr (claimedResult ''31'' ''3'' hash),
    \<lparr> pendingPages = pages, requestLog = log, pendingOutcomes = outcomes,
      submitLog = sent @ [burnArgs ''31''] \<rparr>)"
  by (simp add: claimOne_def attempt_winner3 winnerInfo_tokenId winnerInfo_marketName
      winnerInfo_winnings env_format claimedResult_def formatEther_3)

lemma claim_three:
  "claimLoop exampleEnv exampleConfig scriptedSubmit threeWinners []
     \<lparr> pendingPages = [], requestLog = log, pendingOutcomes = threeOutcomes, submitLog = [] \<rparr> =
   (Inr threeResults,
    \<lparr> pendingPages = [], requestLog = log, pendingOutcomes = [],
      submitLog = [burnArgs ''11'', burnArgs ''21'', burnArgs ''31''] \<rparr>)"
  by (simp add: threeWinners_def threeOutcomes_def claim_winner1 claim_winner2 claim_winner3
      threeResults_def)


lemma process_three:
  "processPositions exampleEnv exampleConfig [winner1, winner2, winner3]
     \<lparr> pendingPages = [], requestLog = [pageRequest exampleConfig 0],
       pendingOutcomes = threeOutcomes, submitLog = [] \<rparr> =
   (Claimed threeSummary, worldAfterThree)"
proof -
  have wallet: "walletAddress exampleConfig = ''0xabc1''"
    by (simp add: exampleConfig_def)
  have winners: "filter (\<lambda>p. isWinner (snd p)) threeWinners = threeWinners"
    and losers: "filter (\<lambda>p. \<not> isWinner (snd p)) threeWinners = []"
    and count: "length threeWinners = 3"
    and some: "threeWinners \<noteq> []"
    and total: "sumWinnings threeWinners = 6000000000000000000"
    by (simp_all add: threeWinners_def winnerInfo_def sumWinnings_def)
  have sdk: "loadSdk exampleEnv = (\<lambda>w. (Inr scriptedSubmit, w))"
    and fmt: "formatEther exampleEnv = viem_formatEther"
    by (simp_all add: exampleEnv_def)
  have content: "buildContent exampleEnv threeWinners threeWinners [] 6000000000000000000
                   threeResults = threeSummary"
    by (simp add: buildContent_def Let_def threeResults_def claimedResult_def failedResult_def
        truthy_def threeSummary_def count fmt formatEther_6)
  show ?thesis
    by (simp add: processPositions_def wallet collect_three winners losers count some total sdk
        claim_three content worldAfterThree_def Let_def
        del: collectClaimable.simps claimLoop.simps)
qed


lemma handler_three:
  "handler exampleEnv (exampleWorld [[winner1, winner2, winner3]] threeOutcomes) =
     Some (Claimed threeSummary, worldAfterThree)"
proof -
  have "getConfig exampleEnv = Inr exampleConfig"
    by (simp add: exampleEnv_def)
  then show ?thesis
    by (simp add: handler_def fetch_three process_three)
qed






section \<open>The report: theorems\<close>

lemma foldl_winnings:
  "foldl (\<lambda>sum p. sum + winnings (snd p)) a entries =
     a + sum_list (map (\<lambda>p. winnings (snd p)) entries)"
  by (induction entries arbitrary: a) simp_all

lemma sumWinnings_sum_list:
  "sumWinnings entries = sum_list (map (\<lambda>p. winnings (snd p)) entries)"
  by (simp add: sumWinnings_def foldl_winnings)

lemma processPositions_Claimed:
  assumes "processPositions env cfg allPositions w = (Claimed s, w')"
  shows "\<exists>claimable.
           collectClaimable allPositions (walletAddress cfg) [] = Inr claimable \<and>
           totalWinnings s =
             formatEther env
               (sum_list (map (\<lambda>p. winnings (snd p))
                  (filter (\<lambda>p. isWinner (snd p)) claimable))) \<and>
           length (results s) = length (filter (\<lambda>p. isWinner (snd p)) claimable) \<and>
           successfulClaims s = length (filter (\<lambda>r. truthy (txHash r)) (results s)) \<and>
           failedClaims s = length (filter (\<lambda>r. truthy (error r)) (results s))"
proof (cases "collectClaimable allPositions (walletAddress cfg) []")
  case (Inl e)
  with assms show ?thesis
    by (simp add: processPositions_def split: if_splits)
next
  case (Inr claimable)
  let ?winning = "filter (\<lambda>p. isWinner (snd p)) claimable"
  let ?losing = "filter (\<lambda>p. \<not> isWinner (snd p)) claimable"
  obtain loaded w1 where sdk: "loadSdk env w = (loaded, w1)"
    by (cases "loadSdk env w")
  from assms Inr sdk obtain submit where loaded: "loaded = Inr submit"
    by (cases loaded) (auto simp: processPositions_def Let_def split: if_splits)
  obtain looped w2 where loop: "claimLoop env cfg submit ?winning [] w1 = (looped, w2)"
    by (cases "claimLoop env cfg submit ?winning [] w1")
  from assms Inr sdk loaded loop obtain rs where looped: "looped = Inr rs"
    by (cases looped) (auto simp: processPositions_def Let_def split: if_splits)
  from assms Inr sdk loaded loop looped
  have s: "s = buildContent env claimable ?winning ?losing (sumWinnings ?winning) rs"
    by (auto simp: processPositions_def Let_def split: if_splits)
  have len: "length rs = length ?winning"
    using claimLoop_length [of env cfg submit ?winning w1 rs w2] by (simp add: loop looped)
  show ?thesis
    by (simp add: Inr s buildContent_def Let_def sumWinnings_sum_list len)
qed

text \<open>
  Claim C1, as the code has it. When the handler reports a claim summary, the total
  winnings in it are the formatted sum of the winnings of all winning positions among
  the claimable ones, computed before any claim is submitted, whether the claims then
  succeed or fail. The summary has one result for each winning position, and its
  counts of successful and failed claims are the numbers of results with a non-empty
  transaction hash and with a non-empty error message.
\<close>

theorem reported_total_covers_all_winners:
  assumes "handler env w = Some (Claimed s, w')"
  shows "\<exists>cfg allPositions w1 claimable.
           getConfig env = Inr cfg \<and>
           fetchLoop env cfg w [] 0 = Some (Inr allPositions, w1) \<and>
           collectClaimable allPositions (walletAddress cfg) [] = Inr claimable \<and>
           totalWinnings s =
             formatEther env
               (sum_list (map (\<lambda>p. winnings (snd p))
                  (filter (\<lambda>p. isWinner (snd p)) claimable))) \<and>
           length (results s) = length (filter (\<lambda>p. isWinner (snd p)) claimable) \<and>
           successfulClaims s = length (filter (\<lambda>r. truthy (txHash r)) (results s)) \<and>
           failedClaims s = length (filter (\<lambda>r. truthy (error r)) (results s))"
proof -
  from assms obtain cfg where cfg: "getConfig env = Inr cfg"
    by (cases "getConfig env") (auto simp: handler_def)
  from assms cfg obtain allPositions w1
    where fetched: "fetchLoop env cfg w [] 0 = Some (Inr allPositions, w1)"
      and processed: "processPositions env cfg allPositions w1 = (Claimed s, w')"
    by (auto simp: handler_def split: option.splits sum.splits prod.splits)
  from processPositions_Claimed [OF processed] cfg fetched show ?thesis
    by blast
qed

text \<open>Three winners of 1, 2 and 3 ether, the second claim fails: two successful claims,
  one failed claim, and a reported total of 6 ether.\<close>

theorem reported_total_covers_all_winners_witness:
  "handler exampleEnv (exampleWorld [[winner1, winner2, winner3]] threeOutcomes) =
     Some (Claimed threeSummary, worldAfterThree) \<and>
   totalWinnings threeSummary = viem_formatEther 6000000000000000000 \<and>
   successfulClaims threeSummary = 2 \<and> failedClaims threeSummary = 1"
proof -
  from reported_total_covers_all_winners [OF handler_three]
  obtain cfg allPositions w1 claimable
    where cfg: "getConfig exampleEnv = Inr cfg"
      and fetched: "fetchLoop exampleEnv cfg
                      (exampleWorld [[winner1, winner2, winner3]] threeOutcomes) [] 0 =
                    Some (Inr allPositions, w1)"
      and collected: "collectClaimable allPositions (walletAddress cfg) [] = Inr claimable"
      and total: "totalWinnings threeSummary =
             formatEther exampleEnv
               (sum_list (map (\<lambda>p. winnings (snd p))
                  (filter (\<lambda>p. isWinner (snd p)) claimable)))"
    by blast
  from cfg have c: "cfg = exampleConfig"
    by (simp add: exampleEnv_def)
  from fetched have a: "allPositions = [winner1, winner2, winner3]"
    by (simp add: c fetch_three)
  from collected have "claimable = threeWinners"
    by (simp add: a c collect_three exampleConfig_def del: collectClaimable.simps)
  with total have "totalWinnings threeSummary = viem_formatEther 6000000000000000000"
    by (simp add: threeWinners_def winnerInfo_def exampleEnv_def)
  with handler_three show ?thesis
    by (simp add: threeSummary_def)
qed

text \<open>
  Claim C1, as the specification has it, fails on that run. The claims of the first and
  third position succeed and that of the second fails; the winnings of the two
  successfully claimed positions add up to 4 ether, but the summary reports 6, the sum
  over all three winners.
\<close>

theorem reported_total_counterexample:
  "handler exampleEnv (exampleWorld [[winner1, winner2, winner3]] threeOutcomes) =
     Some (Claimed threeSummary, worldAfterThree) \<and>
   map txHash (results threeSummary) = [Some ''0xaa01'', None, Some ''0xaa03''] \<and>
   successfulClaims threeSummary = 2 \<and> failedClaims threeSummary = 1 \<and>
   totalWinnings threeSummary =
     formatEther exampleEnv (1000000000000000000 + 2000000000000000000 + 3000000000000000000) \<and>
   totalWinnings threeSummary \<noteq>
     formatEther exampleEnv (1000000000000000000 + 3000000000000000000)"
proof -
  have "formatEther exampleEnv = viem_formatEther"
    by (simp add: exampleEnv_def)
  with handler_three show ?thesis
    by (simp add: threeSummary_def threeResults_def claimedResult_def failedResult_def
        formatEther_6 formatEther_4)
qed

end
